theory Spec2Isabelle
  imports Complex_Main
begin

section \<open>Data model\<close>

text \<open>
  Calendar dates (\<^verbatim>\<open>datetime.date\<close>) are triples of year, month and day. Python
  compares two dates as the tuples \<open>(year, month, day)\<close>, and \<^verbatim>\<open>str(date)\<close> is the
  ISO form \<^verbatim>\<open>%04d-%02d-%02d\<close>.
\<close>

datatype date = Date (year: nat) (month: nat) (day: nat)

fun date_gt :: "date \<Rightarrow> date \<Rightarrow> bool" where
  "date_gt (Date y1 m1 d1) (Date y2 m2 d2) =
     (y2 < y1 \<or> (y1 = y2 \<and> (m2 < m1 \<or> (m1 = m2 \<and> d2 < d1))))"

definition date_between :: "date \<Rightarrow> date \<Rightarrow> date \<Rightarrow> bool" where
  \<comment> \<open>SQL \<^verbatim>\<open>x BETWEEN lo AND hi\<close>: both ends are included.\<close>
  "date_between x lo hi = (\<not> date_gt lo x \<and> \<not> date_gt x hi)"

text \<open>
  \<^verbatim>\<open>class Expense(BaseModel)\<close> of server.py: two text fields and an amount. The amount is
  a Python float; only its comparison with zero matters to the program, so it is a real
  number here. \<^verbatim>\<open>Field(gt=0)\<close> is the only constraint the class declares: \<open>category\<close>
  and \<open>notes\<close> are plain \<^verbatim>\<open>str\<close>.
\<close>

record Expense =
  category :: string
  "notes" :: string
  amount :: real

definition Expense_valid :: "Expense \<Rightarrow> bool" where
  "Expense_valid e = (0 < amount e)"

text \<open>
  A row of the table \<open>expenses\<close>: the three columns the INSERT statement of db_helper.py
  names beside the date, and the AUTO_INCREMENT key \<open>id\<close> (called \<open>row_id\<close> here, since
  \<open>id\<close> is HOL's identity function).
\<close>

record row =
  row_id :: nat
  expense_date :: date
  row_category :: string
  row_notes :: string
  row_amount :: real

text \<open>
  The cursor is opened with \<^verbatim>\<open>dictionary=True\<close>: a fetched row is a dict from column
  names to values. A dict is an association list here, in column order.
\<close>

datatype val = VInt nat | VStr string | VFloat real | VDate date

type_synonym dict = "(string \<times> val) list"

definition row_dict :: "row \<Rightarrow> dict" where
  "row_dict r =
     [(''id'', VInt (row_id r)),
      (''expense_date'', VDate (expense_date r)),
      (''category'', VStr (row_category r)),
      (''notes'', VStr (row_notes r)),
      (''amount'', VFloat (row_amount r))]"

section \<open>The storage engine and the driver\<close>

text \<open>
  The MySQL server and \<^verbatim>\<open>mysql.connector\<close> are outside the repository. They are
  modelled by a world state: the committed rows of the table, the AUTO_INCREMENT counter
  (which MySQL does not roll back), the list of driver calls made so far, and a script
  that says, for each connection still to be opened, how the driver will behave on it.

  On one connection at most one driver call raises (\<open>raises\<close>: which call, and what).
  Until that call has raised the connection is connected; from then on
  \<^verbatim>\<open>conn.is_connected()\<close> answers \<open>link_up\<close>. When no call is planned to raise,
  \<open>link_up\<close> is what \<^verbatim>\<open>is_connected()\<close> answers whenever it is asked, which the context
  manager only does after the body: \<open>raises = None\<close> with \<open>link_up = False\<close> is a
  connection lost silently after the statement ran.
  \<^verbatim>\<open>rollback\<close>, \<^verbatim>\<open>cursor.close\<close> and \<^verbatim>\<open>conn.close\<close> do not raise in this model.
\<close>

datatype exn =
    DriverError string   \<comment> \<open>\<^verbatim>\<open>mysql.connector.Error\<close> and its subclasses\<close>
  | OtherError string    \<comment> \<open>any other \<^verbatim>\<open>Exception\<close>\<close>

datatype step = AtConnect | AtCursor | AtExecute | AtFetchall | AtCommit

record plan =
  raises :: "(step \<times> exn) option"
  link_up :: bool

definition no_fault :: plan where
  "no_fault = \<lparr>raises = None, link_up = True\<rparr>"

datatype stmt =
    SelectByDate date
  | DeleteByDate date
  | InsertRow date string string real
  | SummaryByRange date date

text \<open>
  \<^verbatim>\<open>class ExpenseDatabase\<close> holds the four connection parameters and nothing else; every
  operation hands them to \<^verbatim>\<open>mysql.connector.connect\<close>.
\<close>

record ExpenseDatabase =
  host :: string
  user :: string
  password :: string
  database :: string

datatype event =
    CallConnect ExpenseDatabase | CallCursor | CallExecute stmt | CallFetchall
  | CallCommit | CallRollback | CallCursorClose | CallConnClose

record world =
  table :: "row list"
  auto_increment :: nat
  script :: "plan list"
  calls :: "event list"

record connection =
  work :: "row list"     \<comment> \<open>the table as this connection's open transaction sees it\<close>
  closed :: bool
  tripped :: bool        \<comment> \<open>the planned call has raised\<close>
  conn_plan :: plan

record cursor =
  fetched :: "dict list"
  rowcount :: nat
  lastrowid :: nat
  cursor_closed :: bool

definition log_call :: "event \<Rightarrow> world \<Rightarrow> world" where
  "log_call e w = w\<lparr>calls := calls w @ [e]\<rparr>"

definition raises_at :: "step \<Rightarrow> plan \<Rightarrow> exn option" where
  "raises_at s p =
     (case raises p of
        None \<Rightarrow> None
      | Some (s', e) \<Rightarrow> if s' = s then Some e else None)"

definition next_plan :: "world \<Rightarrow> plan" where
  "next_plan w = (case script w of [] \<Rightarrow> no_fault | p # _ \<Rightarrow> p)"

definition connect :: "ExpenseDatabase \<Rightarrow> world \<Rightarrow> (exn + connection) \<times> world" where
  "connect self w =
     (let p = next_plan w;
          w' = log_call (CallConnect self) (w\<lparr>script := tl (script w)\<rparr>)
      in case raises_at AtConnect p of
           Some e \<Rightarrow> (Inl e, w')
         | None \<Rightarrow>
             (Inr \<lparr>work = table w, closed = False, tripped = False, conn_plan = p\<rparr>, w'))"

definition open_cursor ::
  "connection \<Rightarrow> world \<Rightarrow> (exn + cursor) \<times> connection \<times> world" where
  "open_cursor c w =
     (let w' = log_call CallCursor w
      in case raises_at AtCursor (conn_plan c) of
           Some e \<Rightarrow> (Inl e, c\<lparr>tripped := True\<rparr>, w')
         | None \<Rightarrow>
             (Inr \<lparr>fetched = [], rowcount = 0, lastrowid = 0, cursor_closed = False\<rparr>, c, w'))"

definition is_connected :: "connection \<Rightarrow> bool" where
  "is_connected c =
     (\<not> closed c \<and>
      (if tripped c \<or> raises (conn_plan c) = None then link_up (conn_plan c) else True))"

definition conn_commit :: "connection \<Rightarrow> world \<Rightarrow> (exn + unit) \<times> connection \<times> world" where
  "conn_commit c w =
     (let w' = log_call CallCommit w
      in case raises_at AtCommit (conn_plan c) of
           Some e \<Rightarrow> (Inl e, c\<lparr>tripped := True\<rparr>, w')
         | None \<Rightarrow> (Inr (), c, w'\<lparr>table := work c\<rparr>))"

definition conn_rollback :: "connection \<Rightarrow> world \<Rightarrow> connection \<times> world" where
  "conn_rollback c w = (c\<lparr>work := table w\<rparr>, log_call CallRollback w)"

definition cursor_close :: "cursor \<Rightarrow> world \<Rightarrow> cursor \<times> world" where
  "cursor_close cu w = (cu\<lparr>cursor_closed := True\<rparr>, log_call CallCursorClose w)"

definition conn_close :: "connection \<Rightarrow> world \<Rightarrow> connection \<times> world" where
  "conn_close c w = (c\<lparr>closed := True\<rparr>, log_call CallConnClose w)"

text \<open>
  What one statement does to the rows its transaction sees, and what it leaves in the
  cursor: the fetched dicts, \<^verbatim>\<open>rowcount\<close> and \<^verbatim>\<open>lastrowid\<close>. The summary lists each
  category once (SQL leaves the order of the groups open).
\<close>

definition summary_dict :: "row list \<Rightarrow> string \<Rightarrow> dict" where
  "summary_dict rs c =
     [(''category'', VStr c),
      (''total_amount'', VFloat (sum_list (map row_amount (filter (\<lambda>r. row_category r = c) rs))))]"

fun run_stmt :: "stmt \<Rightarrow> row list \<Rightarrow> nat \<Rightarrow> (dict list \<times> nat \<times> nat) \<times> row list \<times> nat" where
  "run_stmt (SelectByDate d) rs n =
     (let hit = filter (\<lambda>r. expense_date r = d) rs
      in ((map row_dict hit, length hit, 0), rs, n))"
| "run_stmt (DeleteByDate d) rs n =
     (([], length (filter (\<lambda>r. expense_date r = d) rs), 0),
      filter (\<lambda>r. expense_date r \<noteq> d) rs, n)"
| "run_stmt (InsertRow d c t a) rs n =
     (([], 1, n),
      rs @ [\<lparr>row_id = n, expense_date = d, row_category = c, row_notes = t, row_amount = a\<rparr>],
      Suc n)"
| "run_stmt (SummaryByRange lo hi) rs n =
     (let hit = filter (\<lambda>r. date_between (expense_date r) lo hi) rs;
          out = map (summary_dict hit) (remdups (map row_category hit))
      in ((out, length out, 0), rs, n))"

definition execute ::
  "stmt \<Rightarrow> cursor \<Rightarrow> connection \<Rightarrow> world \<Rightarrow> (exn + unit) \<times> cursor \<times> connection \<times> world" where
  "execute q cu c w =
     (let w' = log_call (CallExecute q) w
      in case raises_at AtExecute (conn_plan c) of
           Some e \<Rightarrow> (Inl e, cu, c\<lparr>tripped := True\<rparr>, w')
         | None \<Rightarrow>
             (case run_stmt q (work c) (auto_increment w') of
                ((out, cnt, new_id), rs, n) \<Rightarrow>
                  (Inr (),
                   cu\<lparr>fetched := out, rowcount := cnt, lastrowid := new_id\<rparr>,
                   c\<lparr>work := rs\<rparr>,
                   w'\<lparr>auto_increment := n\<rparr>)))"

definition fetchall ::
  "cursor \<Rightarrow> connection \<Rightarrow> world \<Rightarrow> (exn + dict list) \<times> cursor \<times> connection \<times> world" where
  "fetchall cu c w =
     (let w' = log_call CallFetchall w
      in case raises_at AtFetchall (conn_plan c) of
           Some e \<Rightarrow> (Inl e, cu, c\<lparr>tripped := True\<rparr>, w')
         | None \<Rightarrow> (Inr (fetched cu), cu\<lparr>fetched := []\<rparr>, c, w'))"

section \<open>db_helper.py: the context manager and the four operations\<close>

text \<open>
  \<^verbatim>\<open>_get_db_cursor\<close> is a generator context manager. Its three blocks are three
  functions over a frame: the outcome so far (the body's value, or the exception being
  propagated), the local variables \<open>conn\<close> and \<open>cursor\<close> (\<open>None\<close> until assigned) and
  the world. The body of the \<^verbatim>\<open>with\<close> statement is a parameter. Logging is left out.
\<close>

record 'a frame =
  outcome :: "exn + 'a"
  conn :: "connection option"
  cur :: "cursor option"
  wld :: world

type_synonym 'a body =
  "cursor \<Rightarrow> connection \<Rightarrow> world \<Rightarrow> (exn + 'a) \<times> cursor \<times> connection \<times> world"

definition try_block :: "ExpenseDatabase \<Rightarrow> bool \<Rightarrow> 'a body \<Rightarrow> world \<Rightarrow> 'a frame" where
  "try_block self commit body w =
     (case connect self w of
        (Inl e, w1) \<Rightarrow> \<lparr>outcome = Inl e, conn = None, cur = None, wld = w1\<rparr>
      | (Inr c, w1) \<Rightarrow>
          (case open_cursor c w1 of
             (Inl e, c2, w2) \<Rightarrow> \<lparr>outcome = Inl e, conn = Some c2, cur = None, wld = w2\<rparr>
           | (Inr cu, c2, w2) \<Rightarrow>
               (case body cu c2 w2 of
                  (Inl e, cu3, c3, w3) \<Rightarrow>
                    \<lparr>outcome = Inl e, conn = Some c3, cur = Some cu3, wld = w3\<rparr>
                | (Inr r, cu3, c3, w3) \<Rightarrow>
                    if commit \<and> is_connected c3 then
                      (case conn_commit c3 w3 of
                         (Inl e, c4, w4) \<Rightarrow>
                           \<lparr>outcome = Inl e, conn = Some c4, cur = Some cu3, wld = w4\<rparr>
                       | (Inr _, c4, w4) \<Rightarrow>
                           \<lparr>outcome = Inr r, conn = Some c4, cur = Some cu3, wld = w4\<rparr>)
                    else \<lparr>outcome = Inr r, conn = Some c3, cur = Some cu3, wld = w3\<rparr>)))"

definition except_block :: "bool \<Rightarrow> 'a frame \<Rightarrow> 'a frame" where
  \<comment> \<open>\<^verbatim>\<open>except mysql.connector.Error\<close>: roll back under the guard, then re-raise.\<close>
  "except_block commit fr =
     (case outcome fr of
        Inl (DriverError m) \<Rightarrow>
          (case conn fr of
             Some c \<Rightarrow>
               if commit \<and> is_connected c then
                 (case conn_rollback c (wld fr) of
                    (c', w') \<Rightarrow> fr\<lparr>conn := Some c', wld := w'\<rparr>)
               else fr
           | None \<Rightarrow> fr)
      | _ \<Rightarrow> fr)"

definition finally_block :: "'a frame \<Rightarrow> 'a frame" where
  "finally_block fr =
     (let fr1 =
            (case cur fr of
               Some cu \<Rightarrow>
                 (case cursor_close cu (wld fr) of
                    (cu', w') \<Rightarrow> fr\<lparr>cur := Some cu', wld := w'\<rparr>)
             | None \<Rightarrow> fr)
      in case conn fr1 of
           Some c \<Rightarrow>
             if is_connected c then
               (case conn_close c (wld fr1) of
                  (c', w') \<Rightarrow> fr1\<lparr>conn := Some c', wld := w'\<rparr>)
             else fr1
         | None \<Rightarrow> fr1)"

definition get_db_cursor :: "ExpenseDatabase \<Rightarrow> bool \<Rightarrow> 'a body \<Rightarrow> world \<Rightarrow> 'a frame" where
  "get_db_cursor self commit body w =
     finally_block (except_block commit (try_block self commit body w))"

definition leave :: "'a frame \<Rightarrow> (exn + 'a) \<times> world" where
  \<comment> \<open>what the caller of an operation sees: the value or the exception, and the world\<close>
  "leave fr = (outcome fr, wld fr)"

definition fetch_body :: "stmt \<Rightarrow> dict list body" where
  \<comment> \<open>\<^verbatim>\<open>cursor.execute(query, ...); results = cursor.fetchall(); return results\<close>\<close>
  "fetch_body q cu c w =
     (case execute q cu c w of
        (Inl e, cu1, c1, w1) \<Rightarrow> (Inl e, cu1, c1, w1)
      | (Inr _, cu1, c1, w1) \<Rightarrow> fetchall cu1 c1 w1)"

definition fetch_expenses_for_date ::
  "ExpenseDatabase \<Rightarrow> date \<Rightarrow> world \<Rightarrow> (exn + dict list) \<times> world" where
  "fetch_expenses_for_date self d w =
     leave (get_db_cursor self False (fetch_body (SelectByDate d)) w)"

definition delete_body :: "date \<Rightarrow> nat body" where
  "delete_body d cu c w =
     (case execute (DeleteByDate d) cu c w of
        (Inl e, cu1, c1, w1) \<Rightarrow> (Inl e, cu1, c1, w1)
      | (Inr _, cu1, c1, w1) \<Rightarrow> (Inr (rowcount cu1), cu1, c1, w1))"

definition db_delete_expenses_for_date ::
  "ExpenseDatabase \<Rightarrow> date \<Rightarrow> world \<Rightarrow> (exn + nat) \<times> world" where
  \<comment> \<open>\<^verbatim>\<open>ExpenseDatabase.delete_expenses_for_date\<close>; the handler of server.py has the same
      name and keeps it below\<close>
  "db_delete_expenses_for_date self d w =
     leave (get_db_cursor self True (delete_body d) w)"

definition insert_body :: "date \<Rightarrow> string \<Rightarrow> string \<Rightarrow> real \<Rightarrow> nat body" where
  "insert_body d c t a cu cn w =
     (case execute (InsertRow d c t a) cu cn w of
        (Inl e, cu1, c1, w1) \<Rightarrow> (Inl e, cu1, c1, w1)
      | (Inr _, cu1, c1, w1) \<Rightarrow> (Inr (lastrowid cu1), cu1, c1, w1))"

definition insert_expense ::
  "ExpenseDatabase \<Rightarrow> date \<Rightarrow> string \<Rightarrow> string \<Rightarrow> real \<Rightarrow> world \<Rightarrow> (exn + nat) \<times> world" where
  "insert_expense self d c t a w =
     leave (get_db_cursor self True (insert_body d c t a) w)"

definition fetch_expense_summary ::
  "ExpenseDatabase \<Rightarrow> date \<Rightarrow> date \<Rightarrow> world \<Rightarrow> (exn + dict list) \<times> world" where
  "fetch_expense_summary self lo hi w =
     leave (get_db_cursor self False (fetch_body (SummaryByRange lo hi)) w)"

section \<open>server.py: the request handlers\<close>

text \<open>
  \<^verbatim>\<open>str(n)\<close> for a natural number and \<^verbatim>\<open>str(d)\<close> for a date, which the f-strings of
  the response messages use.
\<close>

definition digit_char :: "nat \<Rightarrow> char" where
  "digit_char n = ''0123456789'' ! n"

function str_nat :: "nat \<Rightarrow> string" where
  "str_nat n = (if n < 10 then [digit_char n] else str_nat (n div 10) @ [digit_char (n mod 10)])"
  by pat_completeness auto
termination
  by (relation "measure (\<lambda>n. n)") auto

declare str_nat.simps [simp del]

definition zfill :: "nat \<Rightarrow> string \<Rightarrow> string" where
  "zfill k s = replicate (k - length s) (CHR ''0'') @ s"

fun str_date :: "date \<Rightarrow> string" where
  "str_date (Date y m d) =
     zfill 4 (str_nat y) @ ''-'' @ zfill 2 (str_nat m) @ ''-'' @ zfill 2 (str_nat d)"

text \<open>
  What a request ends in when it does not return a value: an \<^verbatim>\<open>HTTPException\<close> raised
  by a handler (status code and detail), or a validation error of the framework, which
  checks the request body against the declared model before the handler is called (422)
  and the handler's return value against \<^verbatim>\<open>response_model\<close> after it (500).
\<close>

datatype http_error =
    HTTPException nat string
  | RequestValidationError
  | ResponseValidationError

fun status_code :: "http_error \<Rightarrow> nat" where
  "status_code (HTTPException c _) = c"
| "status_code RequestValidationError = 422"
| "status_code ResponseValidationError = 500"

record ExpenseCreateResponse =
  message :: string
  inserted_count :: nat
  inserted_ids :: "nat list"

record ExpenseDeleteResponse =
  message :: string
  deleted_count :: nat

text \<open>
  The module-level handle \<open>db\<close> is \<open>None\<close> when the constructor raised at start-up; every
  handler takes it as its first argument here.
\<close>

definition unavailable :: http_error where
  "unavailable = HTTPException 503 ''Database connection is not available.''"

subsection \<open>\<^verbatim>\<open>response_model\<close>\<close>

text \<open>
  A route declared with \<^verbatim>\<open>response_model=List[M]\<close> validates each returned dict against
  \<open>M\<close> and sends the fields of \<open>M\<close> only; keys that \<open>M\<close> does not declare are dropped. An
  integer is accepted where a float is declared.
\<close>

fun as_float :: "val \<Rightarrow> real option" where
  "as_float (VFloat a) = Some a"
| "as_float (VInt n) = Some (real n)"
| "as_float _ = None"

definition Expense_of_dict :: "dict \<Rightarrow> Expense option" where
  "Expense_of_dict d =
     (case (map_of d ''category'', map_of d ''notes'', Option.bind (map_of d ''amount'') as_float) of
        (Some (VStr c), Some (VStr t), Some a) \<Rightarrow>
          if 0 < a then Some \<lparr>category = c, notes = t, amount = a\<rparr> else None
      | _ \<Rightarrow> None)"

definition Expense_dump :: "Expense \<Rightarrow> dict" where
  "Expense_dump e =
     [(''category'', VStr (category e)), (''notes'', VStr (notes e)), (''amount'', VFloat (amount e))]"

definition ExpenseSummary_of_dict :: "dict \<Rightarrow> (string \<times> real) option" where
  "ExpenseSummary_of_dict d =
     (case (map_of d ''category'', Option.bind (map_of d ''total_amount'') as_float) of
        (Some (VStr c), Some a) \<Rightarrow> Some (c, a)
      | _ \<Rightarrow> None)"

definition ExpenseSummary_dump :: "string \<times> real \<Rightarrow> dict" where
  "ExpenseSummary_dump p = [(''category'', VStr (fst p)), (''total_amount'', VFloat (snd p))]"

definition response_model :: "(dict \<Rightarrow> 'm option) \<Rightarrow> ('m \<Rightarrow> dict) \<Rightarrow> dict list \<Rightarrow> dict list option" where
  "response_model parse dump ds = map_option (map dump) (those (map parse ds))"

subsection \<open>GET /health\<close>

fun dict_set :: "string \<Rightarrow> val \<Rightarrow> dict \<Rightarrow> dict" where
  \<comment> \<open>\<^verbatim>\<open>d[k] = v\<close>\<close>
  "dict_set k v [] = [(k, v)]"
| "dict_set k v ((k', v') # d) = (if k' = k then (k, v) # d else (k', v') # dict_set k v d)"

definition health_check :: "ExpenseDatabase option \<Rightarrow> date \<Rightarrow> world \<Rightarrow> dict \<times> world" where
  "health_check db today w =
     (let health_status = [(''status'', VStr ''healthy''), (''database'', VStr ''disconnected'')]
      in case db of
           Some h \<Rightarrow>
             (case fetch_expenses_for_date h today w of
                (Inr _, w') \<Rightarrow> (dict_set ''database'' (VStr ''connected'') health_status, w')
              | (Inl _, w') \<Rightarrow>
                  (dict_set ''database'' (VStr ''error'')
                     (dict_set ''status'' (VStr ''degraded'') health_status), w'))
         | None \<Rightarrow> (dict_set ''status'' (VStr ''unhealthy'') health_status, w))"

subsection \<open>GET /expenses/{expense_date}\<close>

definition get_expenses_for_date ::
  "ExpenseDatabase option \<Rightarrow> date \<Rightarrow> world \<Rightarrow> (http_error + dict list) \<times> world" where
  "get_expenses_for_date db d w =
     (case db of
        None \<Rightarrow> (Inl unavailable, w)
      | Some h \<Rightarrow>
          (case fetch_expenses_for_date h d w of
             (Inr expenses_for_date, w') \<Rightarrow> (Inr expenses_for_date, w')
           | (Inl _, w') \<Rightarrow>
               (Inl (HTTPException 500
                  ''An internal server error occurred while fetching expenses.''), w')))"

definition GET_expenses ::
  "ExpenseDatabase option \<Rightarrow> date \<Rightarrow> world \<Rightarrow> (http_error + dict list) \<times> world" where
  \<comment> \<open>the route: the handler, then \<^verbatim>\<open>response_model=List[Expense]\<close>\<close>
  "GET_expenses db d w =
     (case get_expenses_for_date db d w of
        (Inl e, w') \<Rightarrow> (Inl e, w')
      | (Inr ds, w') \<Rightarrow>
          (case response_model Expense_of_dict Expense_dump ds of
             None \<Rightarrow> (Inl ResponseValidationError, w')
           | Some out \<Rightarrow> (Inr out, w')))"

subsection \<open>POST /expenses/{expense_date}\<close>

fun insert_loop ::
  "ExpenseDatabase \<Rightarrow> date \<Rightarrow> Expense list \<Rightarrow> nat list \<Rightarrow> world \<Rightarrow> (exn + nat list) \<times> world" where
  \<comment> \<open>the \<^verbatim>\<open>for\<close> loop; the first exception leaves it\<close>
  "insert_loop h d [] inserted w = (Inr inserted, w)"
| "insert_loop h d (e # es) inserted w =
     (case insert_expense h d (category e) (notes e) (amount e) w of
        (Inl x, w') \<Rightarrow> (Inl x, w')
      | (Inr expense_id, w') \<Rightarrow> insert_loop h d es (inserted @ [expense_id]) w')"

definition add_expenses_for_date ::
  "ExpenseDatabase option \<Rightarrow> date \<Rightarrow> Expense list \<Rightarrow> world
     \<Rightarrow> (http_error + ExpenseCreateResponse) \<times> world" where
  "add_expenses_for_date db d expenses w =
     (case db of
        None \<Rightarrow> (Inl unavailable, w)
      | Some h \<Rightarrow>
          (case insert_loop h d expenses [] w of
             (Inr ids, w') \<Rightarrow>
               (Inr \<lparr>ExpenseCreateResponse.message =
                       ''Successfully added '' @ str_nat (length expenses)
                         @ '' expense(s) for '' @ str_date d @ ''.'',
                     inserted_count = length ids,
                     inserted_ids = ids\<rparr>, w')
           | (Inl _, w') \<Rightarrow>
               (Inl (HTTPException 500
                  ''An internal server error occurred while adding expenses.''), w')))"

definition POST_expenses ::
  "ExpenseDatabase option \<Rightarrow> date \<Rightarrow> Expense list \<Rightarrow> world
     \<Rightarrow> (http_error + ExpenseCreateResponse) \<times> world" where
  \<comment> \<open>the route: the body is checked against \<^verbatim>\<open>List[Expense]\<close>, then the handler runs\<close>
  "POST_expenses db d body w =
     (if list_all Expense_valid body then add_expenses_for_date db d body w
      else (Inl RequestValidationError, w))"

subsection \<open>DELETE /expenses/{expense_date}\<close>

definition delete_expenses_for_date ::
  "ExpenseDatabase option \<Rightarrow> date \<Rightarrow> world \<Rightarrow> (http_error + ExpenseDeleteResponse) \<times> world" where
  "delete_expenses_for_date db d w =
     (case db of
        None \<Rightarrow> (Inl unavailable, w)
      | Some h \<Rightarrow>
          (case db_delete_expenses_for_date h d w of
             (Inr n, w') \<Rightarrow>
               (Inr \<lparr>ExpenseDeleteResponse.message =
                       ''Successfully deleted '' @ str_nat n
                         @ '' expense(s) for '' @ str_date d @ ''.'',
                     deleted_count = n\<rparr>, w')
           | (Inl _, w') \<Rightarrow>
               (Inl (HTTPException 500
                  ''An internal server error occurred while deleting expenses.''), w')))"

subsection \<open>GET /summary\<close>

definition get_expense_summary ::
  "ExpenseDatabase option \<Rightarrow> date \<Rightarrow> date \<Rightarrow> world \<Rightarrow> (http_error + dict list) \<times> world" where
  "get_expense_summary db start_date end_date w =
     (case db of
        None \<Rightarrow> (Inl unavailable, w)
      | Some h \<Rightarrow>
          if date_gt start_date end_date then
            (Inl (HTTPException 400 ''The start_date cannot be after the end_date.''), w)
          else
            (case fetch_expense_summary h start_date end_date w of
               (Inr summary, w') \<Rightarrow> (Inr summary, w')
             | (Inl _, w') \<Rightarrow>
                 (Inl (HTTPException 500
                    ''An internal server error occurred while fetching the summary.''), w')))"

definition GET_summary ::
  "ExpenseDatabase option \<Rightarrow> date \<Rightarrow> date \<Rightarrow> world \<Rightarrow> (http_error + dict list) \<times> world" where
  \<comment> \<open>the route: the handler, then \<^verbatim>\<open>response_model=List[ExpenseSummary]\<close>\<close>
  "GET_summary db start_date end_date w =
     (case get_expense_summary db start_date end_date w of
        (Inl e, w') \<Rightarrow> (Inl e, w')
      | (Inr ds, w') \<Rightarrow>
          (case response_model ExpenseSummary_of_dict ExpenseSummary_dump ds of
             None \<Rightarrow> (Inl ResponseValidationError, w')
           | Some out \<Rightarrow> (Inr out, w')))"

section \<open>Predicates on frames and call lists\<close>


definition new_calls :: "world \<Rightarrow> world \<Rightarrow> event list" where
  \<comment> \<open>the driver calls made between two worlds\<close>
  "new_calls w w' = drop (length (calls w)) (calls w')"

definition is_release :: "event \<Rightarrow> bool" where
  "is_release e = (e = CallCursorClose \<or> e = CallConnClose)"

definition rollback_before_release :: "event list \<Rightarrow> bool" where
  \<comment> \<open>a rollback was called, and no close call precedes the first one\<close>
  "rollback_before_release es =
     (CallRollback \<in> set es \<and>
      \<not> list_ex is_release (takeWhile (\<lambda>e. e \<noteq> CallRollback) es))"

definition nth_insert :: "ExpenseDatabase \<Rightarrow> date \<Rightarrow> Expense list \<Rightarrow> world \<Rightarrow> nat \<Rightarrow> exn + nat" where
  \<comment> \<open>what the \<open>i\<close>-th call of \<open>insert_expense\<close> in the loop returns: it is made for the
      \<open>i\<close>-th item, in the world the inserts of the items before it have left\<close>
  "nth_insert h d es w i =
     fst (insert_expense h d (category (es ! i)) (notes (es ! i)) (amount (es ! i))
            (snd (insert_loop h d (take i es) [] w)))"

section \<open>Concrete inputs\<close>

text \<open>The values the closed theorems below are evaluated on.\<close>

definition demo_db :: ExpenseDatabase where
  "demo_db = \<lparr>host = ''localhost'', user = ''root'', password = ''1234'',
               database = ''expense_manager''\<rparr>"

definition aug1 :: date where
  "aug1 = Date 2024 8 1"

definition empty_world :: world where
  "empty_world = \<lparr>table = [], auto_increment = 1, script = [], calls = []\<rparr>"

definition lunch_row :: row where
  "lunch_row = \<lparr>row_id = 1, expense_date = aug1, row_category = ''Food'',
                 row_notes = ''Lunch'', row_amount = 25.5\<rparr>"

definition lunch_world :: world where
  "lunch_world = \<lparr>table = [lunch_row], auto_increment = 2, script = [], calls = []\<rparr>"

definition lunch :: Expense where
  "lunch = \<lparr>category = ''Food'', notes = ''Lunch'', amount = 25.5\<rparr>"

definition bus :: Expense where
  "bus = \<lparr>category = ''Transport'', notes = ''Bus'', amount = 5\<rparr>"

definition refund :: Expense where
  "refund = \<lparr>category = ''Food'', notes = ''Test'', amount = - 10\<rparr>"


definition failing :: "step \<Rightarrow> bool \<Rightarrow> world \<Rightarrow> world" where
  \<comment> \<open>the next connection raises a driver error at the given call\<close>
  "failing s up w = w\<lparr>script := [\<lparr>raises = Some (s, DriverError ''gone away''), link_up = up\<rparr>]\<rparr>"

section \<open>Properties\<close>

lemma str_nat_0: "str_nat 0 = ''0''"
  by (simp add: str_nat.simps digit_char_def)

subsection \<open>Request validation\<close>

text \<open>
  C1. A batch with an item whose amount is not positive never reaches the handler: the
  route answers with the framework's validation error (422) and the world is the one it
  started from, so no driver call was made and no row was written. This holds whether or
  not a storage handle is configured.
\<close>

theorem nonpositive_amount_rejects_batch:
  "\<exists>e\<in>set body. amount e \<le> 0 \<Longrightarrow> POST_expenses db d body w = (Inl RequestValidationError, w)"
  by (auto simp: POST_expenses_def list_all_iff Expense_valid_def)

theorem nonpositive_amount_rejects_batch_witness:
  "(\<exists>e\<in>set [lunch, refund]. amount e \<le> 0)
   \<and> POST_expenses (Some demo_db) aug1 [lunch, refund] empty_world
       = (Inl RequestValidationError, empty_world)"
  using nonpositive_amount_rejects_batch [of "[lunch, refund]" "Some demo_db" aug1 empty_world]
  by (simp add: refund_def)

text \<open>
  C10. With a storage handle, the empty batch succeeds with count 0 and no ids; the world
  is unchanged, so no connection was opened and no statement was run.
\<close>

theorem empty_batch_is_noop:
  "add_expenses_for_date (Some h) d [] w =
     (Inr \<lparr>ExpenseCreateResponse.message =
             ''Successfully added 0 expense(s) for '' @ str_date d @ ''.'',
           inserted_count = 0, inserted_ids = []\<rparr>, w)
   \<and> POST_expenses (Some h) d [] w = add_expenses_for_date (Some h) d [] w"
  by (simp add: add_expenses_for_date_def POST_expenses_def str_nat_0)





subsection \<open>The health probe\<close>

lemma health_check_cases:
  "fst (health_check db today w) =
     (case db of
        None \<Rightarrow> [(''status'', VStr ''unhealthy''), (''database'', VStr ''disconnected'')]
      | Some h \<Rightarrow>
          (case fst (fetch_expenses_for_date h today w) of
             Inl _ \<Rightarrow> [(''status'', VStr ''degraded''), (''database'', VStr ''error'')]
           | Inr _ \<Rightarrow> [(''status'', VStr ''healthy''), (''database'', VStr ''connected'')]))"
proof (cases db)
  case None
  then show ?thesis by (simp add: health_check_def)
next
  case (Some h)
  obtain r w' where probe: "fetch_expenses_for_date h today w = (r, w')"
    by (cases "fetch_expenses_for_date h today w")
  show ?thesis
    by (cases r) (simp_all add: health_check_def Some probe)
qed

text \<open>
  C9. The probe answers with one of three dicts: unhealthy and disconnected when there
  is no storage handle, degraded and error when there is one and the probe read raises
  (any exception), healthy and connected when the probe read returns. Each status is
  reported in exactly its case.
\<close>

theorem health_status_three_cases:
  "fst (health_check db today w) =
     (case db of
        None \<Rightarrow> [(''status'', VStr ''unhealthy''), (''database'', VStr ''disconnected'')]
      | Some h \<Rightarrow>
          (case fst (fetch_expenses_for_date h today w) of
             Inl _ \<Rightarrow> [(''status'', VStr ''degraded''), (''database'', VStr ''error'')]
           | Inr _ \<Rightarrow> [(''status'', VStr ''healthy''), (''database'', VStr ''connected'')]))
   \<and> (map_of (fst (health_check db today w)) ''status'' = Some (VStr ''unhealthy'') \<longleftrightarrow> db = None)
   \<and> (map_of (fst (health_check db today w)) ''status'' = Some (VStr ''degraded'') \<longleftrightarrow>
        (\<exists>h e. db = Some h \<and> fst (fetch_expenses_for_date h today w) = Inl e))
   \<and> (map_of (fst (health_check db today w)) ''status'' = Some (VStr ''healthy'') \<longleftrightarrow>
        (\<exists>h rs. db = Some h \<and> fst (fetch_expenses_for_date h today w) = Inr rs))"
  unfolding health_check_cases
  by (auto split: option.splits sum.splits)

theorem health_status_three_cases_witness:
  "fst (health_check None aug1 empty_world) =
     [(''status'', VStr ''unhealthy''), (''database'', VStr ''disconnected'')]
   \<and> fst (health_check (Some demo_db) aug1 (failing AtConnect False empty_world)) =
     [(''status'', VStr ''degraded''), (''database'', VStr ''error'')]
   \<and> fst (health_check (Some demo_db) aug1 empty_world) =
     [(''status'', VStr ''healthy''), (''database'', VStr ''connected'')]"
proof -
  have bad: "fst (fetch_expenses_for_date demo_db aug1 (failing AtConnect False empty_world))
               = Inl (DriverError ''gone away'')"
    by (simp add: fetch_expenses_for_date_def get_db_cursor_def try_block_def except_block_def
        finally_block_def leave_def connect_def raises_at_def next_plan_def failing_def
        empty_world_def log_call_def)
  have good: "fst (fetch_expenses_for_date demo_db aug1 empty_world) = Inr []"
    by (simp add: fetch_expenses_for_date_def get_db_cursor_def try_block_def except_block_def
        finally_block_def leave_def fetch_body_def execute_def fetchall_def connect_def
        open_cursor_def cursor_close_def conn_close_def is_connected_def raises_at_def
        next_plan_def no_fault_def empty_world_def log_call_def)
  show ?thesis
    using health_status_three_cases [of None aug1 empty_world]
      health_status_three_cases [of "Some demo_db" aug1 "failing AtConnect False empty_world"]
      health_status_three_cases [of "Some demo_db" aug1 empty_world]
    by (simp add: bad good)
qed

subsection \<open>The summary's range check\<close>

text \<open>
  C5, as stated, fails when no storage handle is configured: the handler tests the
  handle first, so a reversed range is then answered with 503 (service unavailable), not
  with a client error.
\<close>

theorem reversed_range_without_db_is_503:
  "date_gt (Date 2024 8 31) aug1 \<and>
   get_expense_summary None (Date 2024 8 31) aug1 empty_world
     = (Inl (HTTPException 503 ''Database connection is not available.''), empty_world) \<and>
   GET_summary None (Date 2024 8 31) aug1 empty_world
     = (Inl (HTTPException 503 ''Database connection is not available.''), empty_world)"
  by (simp add: get_expense_summary_def GET_summary_def unavailable_def aug1_def)

text \<open>
  C5, amended. For a range with start after end: with a storage handle the request is
  rejected with status 400, without one with status 503; in both cases the world is
  unchanged, so storage was not queried, and the route returns what the handler raised.
\<close>

theorem reversed_range_rejected:
  "date_gt start_date end_date \<Longrightarrow>
     get_expense_summary db start_date end_date w =
       (Inl (case db of
               None \<Rightarrow> HTTPException 503 ''Database connection is not available.''
             | Some h \<Rightarrow> HTTPException 400 ''The start_date cannot be after the end_date.''), w)
     \<and> GET_summary db start_date end_date w = get_expense_summary db start_date end_date w"
  by (simp add: get_expense_summary_def GET_summary_def unavailable_def split: option.splits)

theorem reversed_range_rejected_witness:
  "date_gt (Date 2024 8 31) aug1 \<and>
   get_expense_summary (Some demo_db) (Date 2024 8 31) aug1 empty_world =
       (Inl (HTTPException 400 ''The start_date cannot be after the end_date.''), empty_world)
   \<and> GET_summary (Some demo_db) (Date 2024 8 31) aug1 empty_world =
       (Inl (HTTPException 400 ''The start_date cannot be after the end_date.''), empty_world)"
  using reversed_range_rejected [of "Date 2024 8 31" aug1 "Some demo_db" empty_world]
  by (simp add: aug1_def)

subsection \<open>Reading the rows of a date\<close>

lemmas driver_defs =
  connect_def open_cursor_def conn_commit_def conn_rollback_def cursor_close_def conn_close_def
  is_connected_def log_call_def raises_at_def execute_def fetchall_def

lemmas manager_defs =
  get_db_cursor_def try_block_def except_block_def finally_block_def leave_def

lemma fetch_expenses_for_date_no_raise:
  assumes "raises (next_plan w) = None"
  shows "fst (fetch_expenses_for_date h d w) =
           Inr (map row_dict (filter (\<lambda>r. expense_date r = d) (table w)))"
    and "table (snd (fetch_expenses_for_date h d w)) = table w"
  using assms
  by (simp_all add: fetch_expenses_for_date_def fetch_body_def manager_defs driver_defs Let_def)

lemma those_Expense_of_row_dict:
  "list_all (\<lambda>r. 0 < row_amount r) rs \<Longrightarrow>
   those (map (\<lambda>x. Expense_of_dict (row_dict x)) rs) =
     Some (map (\<lambda>r. \<lparr>category = row_category r, notes = row_notes r, amount = row_amount r\<rparr>) rs)"
  by (induction rs) (simp_all add: Expense_of_dict_def row_dict_def)

text \<open>
  C2, as stated, fails at the HTTP boundary. The handler returns the fetched dicts with
  all five columns, but the route is declared with \<^verbatim>\<open>response_model=List[Expense]\<close>, and
  the response carries the three fields of \<open>Expense\<close> only: neither \<open>id\<close> nor
  \<open>expense_date\<close> is in it.
\<close>

theorem response_omits_id_and_date:
  "fst (get_expenses_for_date (Some demo_db) aug1 lunch_world) =
     Inr [[(''id'', VInt 1), (''expense_date'', VDate aug1), (''category'', VStr ''Food''),
           (''notes'', VStr ''Lunch''), (''amount'', VFloat 25.5)]] \<and>
   fst (GET_expenses (Some demo_db) aug1 lunch_world) =
     Inr [[(''category'', VStr ''Food''), (''notes'', VStr ''Lunch''), (''amount'', VFloat 25.5)]]"
  by (simp add: GET_expenses_def get_expenses_for_date_def fetch_expenses_for_date_def
      fetch_body_def manager_defs driver_defs next_plan_def no_fault_def lunch_world_def
      lunch_row_def response_model_def Expense_of_dict_def Expense_dump_def row_dict_def)

text \<open>
  C2, amended. When the driver raises nothing and the stored amounts for the date are
  positive, the handler's value is the list of full rows for the date, and the response
  of the route holds, for each of these rows in the same order, exactly its category,
  notes and amount.
\<close>

theorem response_is_expense_fields_of_rows:
  assumes "raises (next_plan w) = None"
    and "list_all (\<lambda>r. 0 < row_amount r) (filter (\<lambda>r. expense_date r = d) (table w))"
  shows "fst (get_expenses_for_date (Some h) d w) =
           Inr (map row_dict (filter (\<lambda>r. expense_date r = d) (table w)))
         \<and> fst (GET_expenses (Some h) d w) =
           Inr (map (\<lambda>r. [(''category'', VStr (row_category r)), (''notes'', VStr (row_notes r)),
                           (''amount'', VFloat (row_amount r))])
                  (filter (\<lambda>r. expense_date r = d) (table w)))"
proof -
  obtain r w' where run: "fetch_expenses_for_date h d w = (r, w')"
    by (cases "fetch_expenses_for_date h d w")
  have r: "r = Inr (map row_dict (filter (\<lambda>r. expense_date r = d) (table w)))"
    using fetch_expenses_for_date_no_raise(1) [OF assms(1), of h d] run by simp
  show ?thesis
    by (simp add: GET_expenses_def get_expenses_for_date_def run r response_model_def
        those_Expense_of_row_dict [OF assms(2)] Expense_dump_def comp_def)
qed

theorem response_is_expense_fields_of_rows_witness:
  "raises (next_plan lunch_world) = None \<and>
   list_all (\<lambda>r. 0 < row_amount r) (filter (\<lambda>r. expense_date r = aug1) (table lunch_world)) \<and>
   fst (GET_expenses (Some demo_db) aug1 lunch_world) =
     Inr [[(''category'', VStr ''Food''), (''notes'', VStr ''Lunch''), (''amount'', VFloat 25.5)]]"
proof -
  have a: "raises (next_plan lunch_world) = None"
    by (simp add: next_plan_def lunch_world_def no_fault_def)
  have b: "list_all (\<lambda>r. 0 < row_amount r) (filter (\<lambda>r. expense_date r = aug1) (table lunch_world))"
    by (simp add: lunch_world_def lunch_row_def)
  show ?thesis
    using response_is_expense_fields_of_rows [OF a b, of demo_db] a b
    by (simp add: lunch_world_def lunch_row_def)
qed

subsection \<open>The context manager: release and rollback\<close>








lemma insert_expense_driver_error:
  assumes "raises (next_plan w) = Some (s, DriverError m)" and "s = AtExecute \<or> s = AtCommit"
  shows "fst (insert_expense h d c t a w) = Inl (DriverError m)"
    and "table (snd (insert_expense h d c t a w)) = table w"
    and "new_calls w (snd (insert_expense h d c t a w)) =
           [CallConnect h, CallCursor, CallExecute (InsertRow d c t a)]
           @ (if s = AtCommit then [CallCommit] else [])
           @ (if link_up (next_plan w) then [CallRollback, CallCursorClose, CallConnClose]
              else [CallCursorClose])"
  by (insert assms, elim disjE;
      simp add: insert_expense_def insert_body_def manager_defs driver_defs Let_def new_calls_def)+

lemma db_delete_driver_error:
  assumes "raises (next_plan w) = Some (s, DriverError m)" and "s = AtExecute \<or> s = AtCommit"
  shows "fst (db_delete_expenses_for_date h d w) = Inl (DriverError m)"
    and "table (snd (db_delete_expenses_for_date h d w)) = table w"
    and "new_calls w (snd (db_delete_expenses_for_date h d w)) =
           [CallConnect h, CallCursor, CallExecute (DeleteByDate d)]
           @ (if s = AtCommit then [CallCommit] else [])
           @ (if link_up (next_plan w) then [CallRollback, CallCursorClose, CallConnClose]
              else [CallCursorClose])"
  by (insert assms, elim disjE;
      simp add: db_delete_expenses_for_date_def delete_body_def manager_defs driver_defs Let_def
        new_calls_def)+

text \<open>
  C6, as stated, fails when the failure takes the connection with it. The rollback is
  guarded by \<^verbatim>\<open>conn.is_connected()\<close>: an insert whose \<^verbatim>\<open>execute\<close> raises on a lost
  connection re-raises the error, and the driver calls it made are connect, cursor,
  execute and the cursor's close. No rollback is among them.
\<close>

theorem lost_connection_is_not_rolled_back:
  "raises (next_plan (failing AtExecute False empty_world))
     = Some (AtExecute, DriverError ''gone away'') \<and>
   fst (insert_expense demo_db aug1 ''Food'' ''Lunch'' 25.5 (failing AtExecute False empty_world))
     = Inl (DriverError ''gone away'') \<and>
   calls (snd (insert_expense demo_db aug1 ''Food'' ''Lunch'' 25.5
                 (failing AtExecute False empty_world)))
     = [CallConnect demo_db, CallCursor, CallExecute (InsertRow aug1 ''Food'' ''Lunch'' 25.5),
        CallCursorClose]"
  by (simp add: insert_expense_def insert_body_def manager_defs driver_defs Let_def
      next_plan_def failing_def empty_world_def)

text \<open>
  C6, amended. When the driver raises an error in \<^verbatim>\<open>execute\<close> or \<^verbatim>\<open>commit\<close> of an insert
  or a delete, the same error is re-raised to the caller and the committed table is as
  before. If the connection still answers \<^verbatim>\<open>is_connected()\<close>, a rollback is called, and
  it is called before the cursor and the connection are closed; if the connection is
  lost, no rollback is called.
\<close>

theorem rollback_when_still_connected:
  assumes "raises (next_plan w) = Some (s, DriverError m)" and "s = AtExecute \<or> s = AtCommit"
  shows "fst (insert_expense h d c t a w) = Inl (DriverError m)
       \<and> fst (db_delete_expenses_for_date h d w) = Inl (DriverError m)
       \<and> table (snd (insert_expense h d c t a w)) = table w
       \<and> table (snd (db_delete_expenses_for_date h d w)) = table w
       \<and> (if link_up (next_plan w)
          then rollback_before_release (new_calls w (snd (insert_expense h d c t a w)))
             \<and> rollback_before_release (new_calls w (snd (db_delete_expenses_for_date h d w)))
          else CallRollback \<notin> set (new_calls w (snd (insert_expense h d c t a w)))
             \<and> CallRollback \<notin> set (new_calls w (snd (db_delete_expenses_for_date h d w))))"
  by (simp add: insert_expense_driver_error [OF assms] db_delete_driver_error [OF assms]
      rollback_before_release_def is_release_def)

theorem rollback_when_still_connected_witness:
  "raises (next_plan (failing AtCommit True lunch_world)) = Some (AtCommit, DriverError ''gone away'')
   \<and> fst (db_delete_expenses_for_date demo_db aug1 (failing AtCommit True lunch_world))
       = Inl (DriverError ''gone away'')
   \<and> table (snd (db_delete_expenses_for_date demo_db aug1 (failing AtCommit True lunch_world)))
       = [lunch_row]
   \<and> rollback_before_release
        (new_calls (failing AtCommit True lunch_world)
           (snd (db_delete_expenses_for_date demo_db aug1 (failing AtCommit True lunch_world))))"
proof -
  have a: "raises (next_plan (failing AtCommit True lunch_world))
             = Some (AtCommit, DriverError ''gone away'')"
    by (simp add: next_plan_def failing_def)
  have b: "AtCommit = AtExecute \<or> AtCommit = AtCommit"
    by simp
  have up: "link_up (next_plan (failing AtCommit True lunch_world))"
    by (simp add: next_plan_def failing_def)
  have tab: "table (failing AtCommit True lunch_world) = [lunch_row]"
    by (simp add: failing_def lunch_world_def)
  show ?thesis
    using rollback_when_still_connected [OF a b, of demo_db aug1] a up tab
    by simp
qed

subsection \<open>A date without rows\<close>

lemma filter_other_dates:
  "filter (\<lambda>r. expense_date r = d) rs = [] \<Longrightarrow> filter (\<lambda>r. expense_date r \<noteq> d) rs = rs"
  by (induction rs) (auto split: if_splits)

lemma db_delete_empty_date:
  assumes "filter (\<lambda>r. expense_date r = d) (table w) = []" and "raises (next_plan w) = None"
  shows "fst (db_delete_expenses_for_date h d w) = Inr 0"
    and "table (snd (db_delete_expenses_for_date h d w)) = table w"
  using assms
  by (simp_all add: db_delete_expenses_for_date_def delete_body_def manager_defs driver_defs
      Let_def filter_other_dates)

lemma delete_empty_date:
  assumes "filter (\<lambda>r. expense_date r = d) (table w) = []" and "raises (next_plan w) = None"
  shows "fst (delete_expenses_for_date (Some h) d w) =
           Inr \<lparr>ExpenseDeleteResponse.message =
                  ''Successfully deleted 0 expense(s) for '' @ str_date d @ ''.'',
                deleted_count = 0\<rparr>"
    and "table (snd (delete_expenses_for_date (Some h) d w)) = table w"
proof -
  obtain r w' where run: "db_delete_expenses_for_date h d w = (r, w')"
    by (cases "db_delete_expenses_for_date h d w")
  have r: "r = Inr 0" and w': "table w' = table w"
    using db_delete_empty_date [OF assms, of h] run by simp_all
  show "fst (delete_expenses_for_date (Some h) d w) =
           Inr \<lparr>ExpenseDeleteResponse.message =
                  ''Successfully deleted 0 expense(s) for '' @ str_date d @ ''.'',
                deleted_count = 0\<rparr>"
    by (simp add: delete_expenses_for_date_def run r str_nat_0)
  show "table (snd (delete_expenses_for_date (Some h) d w)) = table w"
    by (simp add: delete_expenses_for_date_def run r w')
qed

text \<open>
  C8. Let no stored row have the date \<open>d\<close>, and let the driver raise nothing. Then the
  delete, in the data-access layer and as a request, succeeds with count 0 and leaves the
  table as it was; done again on the resulting world it gives count 0 again and the same
  table; and the list for \<open>d\<close> is empty, in the data-access layer, in the handler and in
  the response.
\<close>

theorem delete_and_list_on_empty_date:
  assumes "filter (\<lambda>r. expense_date r = d) (table w) = []" and "raises (next_plan w) = None"
  shows "fst (db_delete_expenses_for_date h d w) = Inr 0
       \<and> table (snd (db_delete_expenses_for_date h d w)) = table w
       \<and> fst (delete_expenses_for_date (Some h) d w) =
           Inr \<lparr>ExpenseDeleteResponse.message =
                  ''Successfully deleted 0 expense(s) for '' @ str_date d @ ''.'',
                deleted_count = 0\<rparr>
       \<and> table (snd (delete_expenses_for_date (Some h) d w)) = table w
       \<and> (raises (next_plan (snd (delete_expenses_for_date (Some h) d w))) = None \<longrightarrow>
            fst (delete_expenses_for_date (Some h) d (snd (delete_expenses_for_date (Some h) d w))) =
              Inr \<lparr>ExpenseDeleteResponse.message =
                     ''Successfully deleted 0 expense(s) for '' @ str_date d @ ''.'',
                   deleted_count = 0\<rparr>
          \<and> table (snd (delete_expenses_for_date (Some h) d
                           (snd (delete_expenses_for_date (Some h) d w)))) = table w)
       \<and> fst (fetch_expenses_for_date h d w) = Inr []
       \<and> fst (get_expenses_for_date (Some h) d w) = Inr []
       \<and> fst (GET_expenses (Some h) d w) = Inr []"
proof -
  let ?w1 = "snd (delete_expenses_for_date (Some h) d w)"
  have t1: "table ?w1 = table w"
    by (rule delete_empty_date(2) [OF assms])
  have again: "filter (\<lambda>r. expense_date r = d) (table ?w1) = []"
    using assms(1) t1 by simp
  have twice: "raises (next_plan ?w1) = None \<Longrightarrow>
      fst (delete_expenses_for_date (Some h) d ?w1) =
              Inr \<lparr>ExpenseDeleteResponse.message =
                     ''Successfully deleted 0 expense(s) for '' @ str_date d @ ''.'',
                   deleted_count = 0\<rparr>
      \<and> table (snd (delete_expenses_for_date (Some h) d ?w1)) = table w"
    using delete_empty_date [OF again, of h] t1 by simp
  have fetch: "fst (fetch_expenses_for_date h d w) = Inr []"
    using fetch_expenses_for_date_no_raise(1) [OF assms(2), of h d] assms(1) by simp
  obtain r w' where run: "fetch_expenses_for_date h d w = (r, w')"
    by (cases "fetch_expenses_for_date h d w")
  have r: "r = Inr []"
    using fetch run by simp
  have list: "fst (get_expenses_for_date (Some h) d w) = Inr []"
    "fst (GET_expenses (Some h) d w) = Inr []"
    by (simp_all add: GET_expenses_def get_expenses_for_date_def run r response_model_def)
  show ?thesis
    using db_delete_empty_date [OF assms, of h] delete_empty_date [OF assms, of h] twice fetch list
    by simp
qed

theorem delete_and_list_on_empty_date_witness:
  "filter (\<lambda>r. expense_date r = Date 2024 12 25) (table lunch_world) = []
   \<and> raises (next_plan lunch_world) = None
   \<and> fst (delete_expenses_for_date (Some demo_db) (Date 2024 12 25) lunch_world) =
           Inr \<lparr>ExpenseDeleteResponse.message = ''Successfully deleted 0 expense(s) for 2024-12-25.'',
                deleted_count = 0\<rparr>
   \<and> table (snd (delete_expenses_for_date (Some demo_db) (Date 2024 12 25) lunch_world)) = [lunch_row]
   \<and> fst (GET_expenses (Some demo_db) (Date 2024 12 25) lunch_world) = Inr []"
proof -
  have a: "filter (\<lambda>r. expense_date r = Date 2024 12 25) (table lunch_world) = []"
    by (simp add: lunch_world_def lunch_row_def aug1_def)
  have b: "raises (next_plan lunch_world) = None"
    by (simp add: next_plan_def lunch_world_def no_fault_def)
  have t: "table lunch_world = [lunch_row]"
    by (simp add: lunch_world_def)
  show ?thesis
    using delete_and_list_on_empty_date [OF a b, of demo_db] a b
    by (simp add: t str_nat.simps digit_char_def zfill_def)
qed

subsection \<open>The ids of a batch\<close>

lemma insert_loop_snoc:
  "insert_loop h d (es @ [e]) acc w =
     (case insert_loop h d es acc w of
        (Inl x, w') \<Rightarrow> (Inl x, w')
      | (Inr ids, w') \<Rightarrow>
          (case insert_expense h d (category e) (notes e) (amount e) w' of
             (Inl x, w'') \<Rightarrow> (Inl x, w'')
           | (Inr expense_id, w'') \<Rightarrow> (Inr (ids @ [expense_id]), w'')))"
  by (induction es arbitrary: acc w) (simp_all split: prod.splits sum.splits)

lemma insert_loop_all_succeed:
  "(\<forall>i<length es. \<exists>n. nth_insert h d es w i = Inr n) \<Longrightarrow>
   \<exists>ids w'. insert_loop h d es [] w = (Inr ids, w') \<and> length ids = length es \<and>
     (\<forall>i<length es. nth_insert h d es w i = Inr (ids ! i))"
proof (induction es rule: rev_induct)
  case Nil
  then show ?case by simp
next
  case (snoc e es)
  have same: "nth_insert h d (es @ [e]) w i = nth_insert h d es w i" if "i < length es" for i
    using that by (simp add: nth_insert_def nth_append)
  have "\<forall>i<length es. \<exists>n. nth_insert h d es w i = Inr n"
    using snoc.prems same by (metis length_append_singleton less_SucI)
  then obtain ids w1 where run: "insert_loop h d es [] w = (Inr ids, w1)"
    and len: "length ids = length es"
    and each: "\<forall>i<length es. nth_insert h d es w i = Inr (ids ! i)"
    using snoc.IH by blast
  obtain n where "nth_insert h d (es @ [e]) w (length es) = Inr n"
    using snoc.prems by (metis length_append_singleton lessI)
  then have last: "fst (insert_expense h d (category e) (notes e) (amount e) w1) = Inr n"
    by (simp add: nth_insert_def run)
  then obtain w2 where step: "insert_expense h d (category e) (notes e) (amount e) w1 = (Inr n, w2)"
    by (cases "insert_expense h d (category e) (notes e) (amount e) w1") simp
  have whole: "insert_loop h d (es @ [e]) [] w = (Inr (ids @ [n]), w2)"
    by (simp add: insert_loop_snoc run step)
  have "nth_insert h d (es @ [e]) w i = Inr ((ids @ [n]) ! i)" if "i < length (es @ [e])" for i
  proof (cases "i < length es")
    case True
    then show ?thesis using same each len by (simp add: nth_append)
  next
    case False
    then have "i = length es" using that by simp
    then show ?thesis using last len by (simp add: nth_insert_def run nth_append)
  qed
  then show ?case using whole len by simp
qed

text \<open>
  C4. For a batch of \<open>N\<close> items that passes validation, submitted with a storage handle:
  when each of the \<open>N\<close> calls of \<open>insert_expense\<close> returns an id (the \<open>i\<close>-th call being
  made in the world the first \<open>i\<close> inserts left), the request returns a response, its
  \<open>inserted_count\<close> is \<open>N\<close>, its \<open>inserted_ids\<close> has length \<open>N\<close>, and the \<open>i\<close>-th id is the
  one the \<open>i\<close>-th call returned.
\<close>

theorem inserted_ids_follow_submission_order:
  assumes "list_all Expense_valid es"
    and "\<forall>i<length es. \<exists>n. nth_insert h d es w i = Inr n"
  shows "\<exists>resp w'. POST_expenses (Some h) d es w = (Inr resp, w')
           \<and> inserted_count resp = length es
           \<and> length (inserted_ids resp) = length es
           \<and> (\<forall>i<length es. nth_insert h d es w i = Inr (inserted_ids resp ! i))"
proof -
  obtain ids w' where run: "insert_loop h d es [] w = (Inr ids, w')"
    and len: "length ids = length es"
    and each: "\<forall>i<length es. nth_insert h d es w i = Inr (ids ! i)"
    using insert_loop_all_succeed [OF assms(2)] by blast
  show ?thesis
    using assms(1) len each
    by (simp add: POST_expenses_def add_expenses_for_date_def run)
qed

lemma insert_expense_ok:
  "insert_expense demo_db d c t a \<lparr>table = rs, auto_increment = n, script = [], calls = cs\<rparr> =
     (Inr n, \<lparr>table = rs @ [\<lparr>row_id = n, expense_date = d, row_category = c, row_notes = t,
                              row_amount = a\<rparr>],
              auto_increment = Suc n, script = [],
              calls = cs @ [CallConnect demo_db, CallCursor, CallExecute (InsertRow d c t a),
                            CallCommit, CallCursorClose, CallConnClose]\<rparr>)"
  by (simp add: insert_expense_def insert_body_def manager_defs driver_defs Let_def
      next_plan_def no_fault_def)

theorem inserted_ids_follow_submission_order_witness:
  "list_all Expense_valid [lunch, bus]
   \<and> fst (POST_expenses (Some demo_db) aug1 [lunch, bus] empty_world) =
       Inr \<lparr>ExpenseCreateResponse.message = ''Successfully added 2 expense(s) for 2024-08-01.'',
            inserted_count = 2, inserted_ids = [1, 2]\<rparr>
   \<and> nth_insert demo_db aug1 [lunch, bus] empty_world 0 = Inr 1
   \<and> nth_insert demo_db aug1 [lunch, bus] empty_world 1 = Inr 2"
proof -
  have a: "list_all Expense_valid [lunch, bus]"
    by (simp add: Expense_valid_def lunch_def bus_def)
  have n0: "nth_insert demo_db aug1 [lunch, bus] empty_world 0 = Inr 1"
    by (simp add: nth_insert_def empty_world_def insert_expense_ok)
  have n1: "nth_insert demo_db aug1 [lunch, bus] empty_world 1 = Inr 2"
    by (simp add: nth_insert_def empty_world_def insert_expense_ok)
  have b: "\<forall>i<length [lunch, bus]. \<exists>n. nth_insert demo_db aug1 [lunch, bus] empty_world i = Inr n"
    using n0 n1 by (simp add: All_less_Suc)
  have post: "fst (POST_expenses (Some demo_db) aug1 [lunch, bus] empty_world) =
       Inr \<lparr>ExpenseCreateResponse.message = ''Successfully added 2 expense(s) for 2024-08-01.'',
            inserted_count = 2, inserted_ids = [1, 2]\<rparr>"
    using a
    by (simp add: POST_expenses_def add_expenses_for_date_def empty_world_def insert_expense_ok
        aug1_def str_nat.simps digit_char_def zfill_def)
  show ?thesis
    using inserted_ids_follow_submission_order [OF a b] a post n0 n1 by simp
qed

end
